theory Spec2Isabelle
  imports Main
begin

section \<open>Test suites of avocado.core.suite\<close>

text \<open>
  A shallow embedding of \<^verbatim>\<open>avocado/core/suite.py\<close>: the function
  \<^verbatim>\<open>resolutions_to_runnables\<close> and the class \<^verbatim>\<open>TestSuite\<close> with its
  constructor, its lazy properties, the variant expansion, the dry-run conversion and the
  \<^verbatim>\<open>from_config\<close> factory. Methods whose Python name starts with an underscore carry
  the prefix \<open>priv_\<close>. An exception is a value \<open>Inl e\<close> of the result; a method that
  assigns to an attribute of the suite returns the updated suite.
\<close>

subsection \<open>Python values and configuration dictionaries\<close>

text \<open>
  The values a configuration dictionary holds. Floating point numbers and nested
  dictionaries are left out.
\<close>

datatype pyval =
    PNone
  | PBool bool
  | PInt int
  | PStr string
  | PList "pyval list"
  | PTuple "pyval list"

text \<open>\<^verbatim>\<open>bool(v)\<close>: what \<^verbatim>\<open>if v:\<close> and \<^verbatim>\<open>not v\<close> test.\<close>

fun truthy :: "pyval \<Rightarrow> bool" where
  "truthy PNone = False"
| "truthy (PBool b) = b"
| "truthy (PInt i) = (i \<noteq> 0)"
| "truthy (PStr s) = (s \<noteq> [])"
| "truthy (PList xs) = (xs \<noteq> [])"
| "truthy (PTuple xs) = (xs \<noteq> [])"

text \<open>A configuration is a dictionary keyed by dotted option names.\<close>

type_synonym config = "string \<rightharpoonup> pyval"

text \<open>\<^verbatim>\<open>config.get(key)\<close> yields \<^verbatim>\<open>None\<close> for an absent key.\<close>

definition config_get :: "config \<Rightarrow> string \<Rightarrow> pyval" where
  "config_get c k = (case c k of None \<Rightarrow> PNone | Some v \<Rightarrow> v)"

text \<open>\<^verbatim>\<open>config.get(key, default)\<close>.\<close>

definition config_get_default :: "config \<Rightarrow> string \<Rightarrow> pyval \<Rightarrow> pyval" where
  "config_get_default c k d = (case c k of None \<Rightarrow> d | Some v \<Rightarrow> v)"

text \<open>
  \<^verbatim>\<open>if d: base.update(d)\<close> for an optional dictionary argument \<open>d\<close>: neither
  \<^verbatim>\<open>None\<close> nor the empty dictionary is truthy.
\<close>

definition update_if :: "config \<Rightarrow> config option \<Rightarrow> config" where
  "update_if base d =
     (case d of
        None \<Rightarrow> base
      | Some m \<Rightarrow> if m \<noteq> Map.empty then base ++ m else base)"

subsection \<open>Exceptions\<close>

text \<open>
  The exception classes the module raises, catches or can run into. A class stands for
  itself and its subclasses, as an \<^verbatim>\<open>except\<close> clause matches them;
  \<open>OtherError\<close> is any other exception of a collaborator.
\<close>

datatype error =
    TestSuiteError string
  | OptionValidationError string
  | JobTestSuiteReferenceResolutionError string
  | IOError string
  | ValueError string
  | TypeError string
  | OtherError string

subsection \<open>Dictionaries built by a comprehension\<close>

text \<open>
  A dictionary with arbitrary hashable keys is an association list in insertion order.
  Python compares keys with \<^verbatim>\<open>==\<close>, under which \<^verbatim>\<open>True == 1\<close> and
  \<^verbatim>\<open>False == 0\<close>; \<open>py_norm\<close> maps equal keys to one representative.
\<close>

type_synonym pydict = "(pyval \<times> pyval) list"

primrec py_norm :: "pyval \<Rightarrow> pyval" where
  "py_norm PNone = PNone"
| "py_norm (PBool b) = PInt (if b then 1 else 0)"
| "py_norm (PInt i) = PInt i"
| "py_norm (PStr s) = PStr s"
| "py_norm (PList xs) = PList (map py_norm xs)"
| "py_norm (PTuple xs) = PTuple (map py_norm xs)"

definition py_eq :: "pyval \<Rightarrow> pyval \<Rightarrow> bool" where
  "py_eq a b = (py_norm a = py_norm b)"

primrec hashable :: "pyval \<Rightarrow> bool" where
  "hashable PNone = True"
| "hashable (PBool b) = True"
| "hashable (PInt i) = True"
| "hashable (PStr s) = True"
| "hashable (PList xs) = False"
| "hashable (PTuple xs) = list_all (\<lambda>b. b) (map hashable xs)"

text \<open>\<^verbatim>\<open>d[k] = v\<close>: an existing key keeps its place and its key object.\<close>

fun dict_set :: "pydict \<Rightarrow> pyval \<Rightarrow> pyval \<Rightarrow> pydict" where
  "dict_set [] k v = [(k, v)]"
| "dict_set ((k', v') # d) k v =
     (if py_eq k' k then (k', v) # d else (k', v') # dict_set d k v)"

text \<open>\<^verbatim>\<open>iter(v)\<close>: lists, tuples and strings are iterable.\<close>

fun py_iter :: "pyval \<Rightarrow> error + pyval list" where
  "py_iter (PList xs) = Inr xs"
| "py_iter (PTuple xs) = Inr xs"
| "py_iter (PStr s) = Inr (map (\<lambda>c. PStr [c]) s)"
| "py_iter PNone = Inl (TypeError ''object is not iterable'')"
| "py_iter (PBool b) = Inl (TypeError ''object is not iterable'')"
| "py_iter (PInt i) = Inl (TypeError ''object is not iterable'')"

text \<open>The target \<^verbatim>\<open>name, value\<close> of the comprehension unpacks one element.\<close>

definition unpack_pair :: "pyval \<Rightarrow> error + (pyval \<times> pyval)" where
  "unpack_pair v =
     (case py_iter v of
        Inl e \<Rightarrow> Inl e
      | Inr [a, b] \<Rightarrow> Inr (a, b)
      | Inr _ \<Rightarrow> Inl (ValueError ''wrong number of values to unpack''))"

text \<open>\<^verbatim>\<open>{name: value for name, value in items}\<close> over the elements of \<open>items\<close>.\<close>

fun dict_comprehension :: "pyval list \<Rightarrow> pydict \<Rightarrow> error + pydict" where
  "dict_comprehension [] d = Inr d"
| "dict_comprehension (x # xs) d =
     (case unpack_pair x of
        Inl e \<Rightarrow> Inl e
      | Inr (k, v) \<Rightarrow>
          if hashable k then dict_comprehension xs (dict_set d k v)
          else Inl (TypeError ''unhashable type''))"

subsection \<open>Runnables, resolutions and variants\<close>

text \<open>
  A runnable of \<^verbatim>\<open>avocado.core.nrunner\<close>: its kind, its URI, the kind-specific
  configuration, its tags and the variant bound to it (of type \<open>'v\<close>, whatever
  \<^verbatim>\<open>dump_variant\<close> produces). Runnables are values here, and the model follows
  them through the list \<^verbatim>\<open>tests\<close> of a suite. In the program the same objects
  are also reachable from the resolutions a suite keeps, so an assignment to an attribute
  of a runnable of \<^verbatim>\<open>tests\<close> shows there too; the model makes no statement about
  that second view.
\<close>

record 'v runnable =
  kind :: string
  uri :: string
  default_config :: config
  tags :: "(string \<times> string list) list option"
  variant :: "'v option"

text \<open>
  The result of a resolution is declared in \<^verbatim>\<open>avocado.core.resolver\<close>; only
  whether it is \<^verbatim>\<open>SUCCESS\<close> matters here.
\<close>

datatype ReferenceResolutionResult = SUCCESS | OtherResult string

record 'v ReferenceResolution =
  reference :: string
  result :: ReferenceResolutionResult
  resolutions :: "'v runnable list"

text \<open>
  Modelled from the spec: the class \<^verbatim>\<open>TreeNode\<close> of \<^verbatim>\<open>avocado.core.tree\<close> is
  not part of this file. The spec describes the payload of a variant as a parameter tree;
  a node has a name, a dictionary of values and children.
\<close>

datatype tree_node = TreeNode (node_name: string) (node_value: pydict) (children: "tree_node list")

text \<open>
  The dictionary with the keys \<^verbatim>\<open>"variant"\<close>, \<^verbatim>\<open>"variant_id"\<close> and
  \<^verbatim>\<open>"paths"\<close> that stands for one variant (line 288).
\<close>

record variant_dict =
  vd_variant :: tree_node
  variant_id :: "string option"
  paths :: "string list"

text \<open>
  Modelled from the spec: the class \<^verbatim>\<open>Varianter\<close> of
  \<^verbatim>\<open>avocado.core.varianter\<close> is not part of this file. The spec gives it
  \<^verbatim>\<open>is_parsed()\<close>, \<^verbatim>\<open>parse(config)\<close> and a finite, restartable
  \<^verbatim>\<open>itertests()\<close>; the object is truthy when the engine reports at least one
  variant (\<open>reported\<close>).
\<close>

record varianter =
  is_parsed :: bool
  reported :: nat
  itertests :: "variant_dict list"

definition varianter_truthy :: "varianter \<Rightarrow> bool" where
  "varianter_truthy v = (reported v \<noteq> 0)"

subsection \<open>The collaborators\<close>

text \<open>
  What the module imports and calls: the settings registry, the resolver, the hint
  parser, the tag filter, the variant engine, the tree and the runnable's own
  \<^verbatim>\<open>filter_runnable_config\<close>. They are parameters of the model.
\<close>

record ('v, 'h) env =
  settings_as_dict :: config
  path_exists :: "string \<Rightarrow> bool"
  HintParser :: "string \<Rightarrow> error + 'h"
  resolve :: "pyval \<Rightarrow> 'h option \<Rightarrow> pyval \<Rightarrow> config \<Rightarrow> error + 'v ReferenceResolution list"
  filter_tags_on_runnables ::
    "'v ReferenceResolution list \<Rightarrow> pyval \<Rightarrow> pyval \<Rightarrow> pyval \<Rightarrow> error + 'v runnable list"
  filter_runnable_config :: "string \<Rightarrow> config \<Rightarrow> config"
  uuid4 :: string
  Varianter :: varianter
  parse :: "varianter \<Rightarrow> config \<Rightarrow> error + varianter"
  is_empty_variant :: "tree_node \<Rightarrow> bool"
  dump_variant :: "variant_dict \<Rightarrow> 'v"

subsection \<open>The suite\<close>

datatype TestSuiteStatus = RESOLUTION_NOT_STARTED | TESTS_NOT_FOUND | TESTS_FOUND | UNKNOWN

text \<open>
  The attributes of a \<^verbatim>\<open>TestSuite\<close>. \<open>cached_variants\<close> and
  \<open>cached_test_parameters\<close> are \<^verbatim>\<open>_variants\<close> and \<^verbatim>\<open>_test_parameters\<close>.
  The attribute \<^verbatim>\<open>resolutions\<close> is not part of the modelled state: it refers to
  the runnable objects of \<^verbatim>\<open>tests\<close>, and what the program does to those objects is
  followed through \<^verbatim>\<open>tests\<close> only. The runner, the references and the statistics
  are not modelled either.
\<close>

record 'v TestSuite =
  name :: string
  tests :: "'v runnable list option"
  enabled :: bool
  config :: config
  cached_variants :: "varianter option"
  cached_test_parameters :: "pydict option"

text \<open>The property \<^verbatim>\<open>size\<close>.\<close>

definition suite_size :: "'v TestSuite \<Rightarrow> nat" where
  "suite_size s = (case tests s of None \<Rightarrow> 0 | Some ts \<Rightarrow> length ts)"

text \<open>The property \<^verbatim>\<open>status\<close>.\<close>

definition status :: "'v TestSuite \<Rightarrow> TestSuiteStatus" where
  "status s =
     (if tests s = None then RESOLUTION_NOT_STARTED
      else if suite_size s = 0 then TESTS_NOT_FOUND
      else if suite_size s > 0 then TESTS_FOUND
      else UNKNOWN)"

subsection \<open>From resolutions to runnables\<close>

text \<open>
  The two loops of \<^verbatim>\<open>resolutions_to_runnables\<close>, with the list \<^verbatim>\<open>result\<close> as
  accumulator. \<^verbatim>\<open>filter_runnable_config\<close> is taken to return without raising.
\<close>

fun set_default_configs ::
  "('v, 'h) env \<Rightarrow> config \<Rightarrow> 'v runnable list \<Rightarrow> 'v runnable list \<Rightarrow> 'v runnable list" where
  "set_default_configs E c [] acc = acc"
| "set_default_configs E c (r # rs) acc =
     set_default_configs E c rs
       (acc @ [r\<lparr>default_config := filter_runnable_config E (kind r) c\<rparr>])"

fun collect_runnables ::
  "('v, 'h) env \<Rightarrow> config \<Rightarrow> 'v ReferenceResolution list \<Rightarrow> 'v runnable list \<Rightarrow> 'v runnable list" where
  "collect_runnables E c [] acc = acc"
| "collect_runnables E c (x # xs) acc =
     (if result x \<noteq> SUCCESS then collect_runnables E c xs acc
      else collect_runnables E c xs (set_default_configs E c (resolutions x) acc))"

definition resolutions_to_runnables ::
  "('v, 'h) env \<Rightarrow> 'v ReferenceResolution list \<Rightarrow> config \<Rightarrow> error + 'v runnable list" where
  "resolutions_to_runnables E rs c =
     (let filter_by_tags = config_get c ''filter.by_tags.tags'';
          include_empty = config_get c ''filter.by_tags.include_empty'';
          include_empty_key = config_get c ''filter.by_tags.include_empty_key''
      in if truthy filter_by_tags
         then filter_tags_on_runnables E rs filter_by_tags include_empty include_empty_key
         else Inr (collect_runnables E c rs []))"

subsection \<open>Lazy properties\<close>

text \<open>
  The property \<^verbatim>\<open>test_parameters\<close>: computed from \<^verbatim>\<open>run.test_parameters\<close> on
  the first access and kept.
\<close>

definition test_parameters :: "'v TestSuite \<Rightarrow> error + (pydict \<times> 'v TestSuite)" where
  "test_parameters s =
     (case cached_test_parameters s of
        Some d \<Rightarrow> Inr (d, s)
      | None \<Rightarrow>
          (case py_iter (config_get_default (config s) ''run.test_parameters'' (PList [])) of
             Inl e \<Rightarrow> Inl e
           | Inr items \<Rightarrow>
               (case dict_comprehension items [] of
                  Inl e \<Rightarrow> Inl e
                | Inr d \<Rightarrow> Inr (d, s\<lparr>cached_test_parameters := Some d\<rparr>))))"

text \<open>
  The property \<^verbatim>\<open>variants\<close>: a fresh engine is parsed with the suite's
  configuration unless it is parsed already; an \<^verbatim>\<open>IOError\<close> or
  \<^verbatim>\<open>ValueError\<close> of the parser becomes an \<^verbatim>\<open>OptionValidationError\<close>.
\<close>

definition variants :: "('v, 'h) env \<Rightarrow> 'v TestSuite \<Rightarrow> error + (varianter \<times> 'v TestSuite)" where
  "variants E s =
     (case cached_variants s of
        Some v \<Rightarrow> Inr (v, s)
      | None \<Rightarrow>
          (let v = Varianter E
           in if \<not> is_parsed v
              then (case parse E v (config s) of
                      Inl (IOError d) \<Rightarrow> Inl (OptionValidationError (''Unable to parse variant: '' @ d))
                    | Inl (ValueError d) \<Rightarrow> Inl (OptionValidationError (''Unable to parse variant: '' @ d))
                    | Inl e \<Rightarrow> Inl e
                    | Inr v' \<Rightarrow> Inr (v', s\<lparr>cached_variants := Some v'\<rparr>))
              else Inr (v, s\<lparr>cached_variants := Some v\<rparr>)))"

subsection \<open>Mutual exclusion of parameters and variants\<close>

text \<open>The loop of \<^verbatim>\<open>_has_both_parameters_and_variants\<close>, which returns at the first
  variant that is not empty.\<close>

fun some_variant_not_empty :: "('v, 'h) env \<Rightarrow> variant_dict list \<Rightarrow> bool" where
  "some_variant_not_empty E [] = False"
| "some_variant_not_empty E (x # xs) =
     (let var = vd_variant x
      in if \<not> is_empty_variant E var then True else some_variant_not_empty E xs)"

definition priv_has_both_parameters_and_variants ::
  "('v, 'h) env \<Rightarrow> 'v TestSuite \<Rightarrow> error + (bool \<times> 'v TestSuite)" where
  "priv_has_both_parameters_and_variants E s =
     (case test_parameters s of
        Inl e \<Rightarrow> Inl e
      | Inr (tp, s1) \<Rightarrow>
          if tp = [] then Inr (False, s1)
          else (case variants E s1 of
                  Inl e \<Rightarrow> Inl e
                | Inr (v, s2) \<Rightarrow> Inr (some_variant_not_empty E (itertests v), s2)))"

definition err_msg :: string where
  \<open>err_msg =
     ''Specifying test parameters (with config entry "run.test_parameters" or command line "-p") along with any varianter plugin (run "avocado plugins" for a list) is not yet supported. Please use one or the other.''\<close>

definition priv_check_both_parameters_and_variants ::
  "('v, 'h) env \<Rightarrow> 'v TestSuite \<Rightarrow> error + 'v TestSuite" where
  "priv_check_both_parameters_and_variants E s =
     (case priv_has_both_parameters_and_variants E s of
        Inl e \<Rightarrow> Inl e
      | Inr (both, s1) \<Rightarrow> if both then Inl (TestSuiteError err_msg) else Inr s1)"

subsection \<open>Dry run\<close>

text \<open>Iterating \<^verbatim>\<open>self.tests\<close> when it is \<^verbatim>\<open>None\<close> raises.\<close>

definition none_not_iterable :: error where
  "none_not_iterable = TypeError ''NoneType object is not iterable''"

text \<open>
  \<^verbatim>\<open>_convert_to_dry_run\<close> assigns to the attribute \<^verbatim>\<open>kind\<close> of each runnable
  of \<^verbatim>\<open>tests\<close>, in place; the result is the suite with the runnables of
  \<^verbatim>\<open>tests\<close> so changed.
\<close>

definition priv_convert_to_dry_run :: "'v TestSuite \<Rightarrow> error + 'v TestSuite" where
  "priv_convert_to_dry_run s =
     (if config_get (config s) ''run.suite_runner'' = PStr ''nrunner''
      then (case tests s of
              None \<Rightarrow> Inl none_not_iterable
            | Some ts \<Rightarrow> Inr (s\<lparr>tests := Some (map (\<lambda>r. r\<lparr>kind := ''dry-run''\<rparr>) ts)\<rparr>))
      else Inr s)"

subsection \<open>The constructor\<close>

text \<open>
  \<^verbatim>\<open>TestSuite.__init__\<close>: the attributes are set, the mutual-exclusion check runs,
  then the dry-run conversion when \<^verbatim>\<open>run.dry_run.enabled\<close> is truthy. The closing
  \<^verbatim>\<open>if self.size == 0: return\<close> changes nothing.
\<close>

text \<open>
  The modelled attributes as the assignments of lines 96 to 112 leave them. The argument
  \<^verbatim>\<open>resolutions\<close> goes to the attribute that the model leaves out.
\<close>

definition init_attributes ::
  "('v, 'h) env \<Rightarrow> string \<Rightarrow> config option \<Rightarrow> 'v runnable list option \<Rightarrow> config option \<Rightarrow>
   'v ReferenceResolution list option \<Rightarrow> bool \<Rightarrow> 'v TestSuite" where
  "init_attributes E nm cfg ts job_config rs en =
     \<lparr>name = nm, tests = ts, enabled = en,
      config = update_if (update_if (settings_as_dict E) job_config) cfg,
      cached_variants = None, cached_test_parameters = None\<rparr>"

definition TestSuite_init ::
  "('v, 'h) env \<Rightarrow> string \<Rightarrow> config option \<Rightarrow> 'v runnable list option \<Rightarrow> config option \<Rightarrow>
   'v ReferenceResolution list option \<Rightarrow> bool \<Rightarrow> error + 'v TestSuite" where
  "TestSuite_init E nm cfg ts job_config rs en =
     (let s = init_attributes E nm cfg ts job_config rs en
      in case priv_check_both_parameters_and_variants E s of
           Inl e \<Rightarrow> Inl e
         | Inr s1 \<Rightarrow>
             if truthy (config_get (config s1) ''run.dry_run.enabled'')
             then priv_convert_to_dry_run s1
             else Inr s1)"

subsection \<open>Variant expansion\<close>

text \<open>
  The local function \<^verbatim>\<open>add_variant\<close>, with the list \<^verbatim>\<open>runnable_with_variant\<close>
  it appends to as argument and result. The deep copy of a value is the value.
\<close>

definition add_variant ::
  "('v, 'h) env \<Rightarrow> 'v runnable \<Rightarrow> variant_dict \<Rightarrow> 'v runnable list \<Rightarrow> 'v runnable list" where
  "add_variant E r x acc = acc @ [r\<lparr>variant := Some (dump_variant E x)\<rparr>]"

text \<open>
  Modelled from the spec: \<^verbatim>\<open>TreeNode().get_node("/", True)\<close> of
  \<^verbatim>\<open>avocado.core.tree\<close> is not part of this file; the spec describes the payload of
  the synthetic variant as a single-node tree under the root path.
\<close>

definition get_node_root :: tree_node where
  "get_node_root = TreeNode [] [] []"

text \<open>The synthetic variant built from the test parameters.\<close>

definition parameters_variant :: "pydict \<Rightarrow> variant_dict" where
  "parameters_variant tp =
     (let paths = [''/''];
          tree_nodes = TreeNode (node_name get_node_root) tp (children get_node_root)
      in \<lparr>vd_variant = tree_nodes, variant_id = None, paths = paths\<rparr>)"

text \<open>The three loops over \<^verbatim>\<open>self.tests\<close> and \<^verbatim>\<open>self.variants.itertests()\<close>.\<close>

definition bind_all_tests ::
  "('v, 'h) env \<Rightarrow> variant_dict \<Rightarrow> 'v runnable list \<Rightarrow> 'v runnable list \<Rightarrow> 'v runnable list" where
  "bind_all_tests E x ts acc = fold (\<lambda>r a. add_variant E r x a) ts acc"

definition bind_all_variants ::
  "('v, 'h) env \<Rightarrow> 'v runnable \<Rightarrow> variant_dict list \<Rightarrow> 'v runnable list \<Rightarrow> 'v runnable list" where
  "bind_all_variants E r xs acc = fold (\<lambda>x a. add_variant E r x a) xs acc"

definition variants_per_test ::
  "('v, 'h) env \<Rightarrow> 'v runnable list \<Rightarrow> variant_dict list \<Rightarrow> 'v runnable list" where
  "variants_per_test E ts xs = fold (\<lambda>r a. bind_all_variants E r xs a) ts []"

definition tests_per_variant ::
  "('v, 'h) env \<Rightarrow> 'v runnable list \<Rightarrow> variant_dict list \<Rightarrow> 'v runnable list" where
  "tests_per_variant E ts xs = fold (\<lambda>x a. bind_all_tests E x ts a) xs []"

definition priv_get_test_variants ::
  "('v, 'h) env \<Rightarrow> 'v TestSuite \<Rightarrow> error + ('v runnable list \<times> 'v TestSuite)" where
  "priv_get_test_variants E s =
     (case test_parameters s of
        Inl e \<Rightarrow> Inl e
      | Inr (tp, s1) \<Rightarrow>
          if tp \<noteq> [] then
            (case tests s1 of
               None \<Rightarrow> Inl none_not_iterable
             | Some ts \<Rightarrow> Inr (bind_all_tests E (parameters_variant tp) ts [], s1))
          else
            (case variants E s1 of
               Inl e \<Rightarrow> Inl e
             | Inr (v, s2) \<Rightarrow>
                 if varianter_truthy v then
                   (let execution_order = config_get (config s2) ''run.execution_order''
                    in if execution_order = PStr ''variants-per-test'' then
                         (case tests s2 of
                            None \<Rightarrow> Inl none_not_iterable
                          | Some ts \<Rightarrow> Inr (variants_per_test E ts (itertests v), s2))
                       else if execution_order = PStr ''tests-per-variant'' then
                         (if itertests v = [] then Inr ([], s2)
                          else (case tests s2 of
                                  None \<Rightarrow> Inl none_not_iterable
                                | Some ts \<Rightarrow> Inr (tests_per_variant E ts (itertests v), s2)))
                       else Inr ([], s2))
                 else Inr ([], s2)))"

subsection \<open>The factory\<close>

definition priv_from_config_with_resolver ::
  "('v, 'h) env \<Rightarrow> config \<Rightarrow> string option \<Rightarrow> error + 'v TestSuite" where
  "priv_from_config_with_resolver E c nm =
     (let ignore_missing = config_get c ''run.ignore_missing_references'';
          references = config_get c ''resolver.references'';
          hint_filepath = ''.avocado.hint'';
          hint = (if path_exists E hint_filepath
                  then (case HintParser E hint_filepath of Inl e \<Rightarrow> Inl e | Inr h \<Rightarrow> Inr (Some h))
                  else Inr None)
      in case (case hint of Inl e \<Rightarrow> Inl e | Inr h \<Rightarrow> resolve E references h ignore_missing c) of
           Inl (JobTestSuiteReferenceResolutionError details) \<Rightarrow> Inl (TestSuiteError details)
         | Inl e \<Rightarrow> Inl e
         | Inr rs \<Rightarrow>
             (case resolutions_to_runnables E rs c of
                Inl e \<Rightarrow> Inl e
              | Inr runnables \<Rightarrow>
                  TestSuite_init E (case nm of None \<Rightarrow> uuid4 E | Some n \<Rightarrow> n)
                    (Some c) (Some runnables) None (Some rs) True))"

text \<open>\<^verbatim>\<open>suite.test_parameters or suite.variants\<close>: the second operand is evaluated only
  when the first is empty.\<close>

definition parameters_or_variants ::
  "('v, 'h) env \<Rightarrow> 'v TestSuite \<Rightarrow> error + (bool \<times> 'v TestSuite)" where
  "parameters_or_variants E s =
     (case test_parameters s of
        Inl e \<Rightarrow> Inl e
      | Inr (tp, s1) \<Rightarrow>
          if tp \<noteq> [] then Inr (True, s1)
          else (case variants E s1 of
                  Inl e \<Rightarrow> Inl e
                | Inr (v, s2) \<Rightarrow> Inr (varianter_truthy v, s2)))"

text \<open>The configuration \<^verbatim>\<open>from_config\<close> merges (lines 340 to 344).\<close>

definition from_config_config :: "('v, 'h) env \<Rightarrow> config \<Rightarrow> config option \<Rightarrow> config" where
  "from_config_config E suite_config job_config =
     update_if (settings_as_dict E) job_config ++ suite_config"

text \<open>The suite of \<^verbatim>\<open>from_config\<close> before the final check (lines 345 to 347).\<close>

definition from_config_suite ::
  "('v, 'h) env \<Rightarrow> config \<Rightarrow> string option \<Rightarrow> config option \<Rightarrow> error + 'v TestSuite" where
  "from_config_suite E suite_config nm job_config =
     (case priv_from_config_with_resolver E (from_config_config E suite_config job_config) nm of
        Inl e \<Rightarrow> Inl e
      | Inr suite \<Rightarrow>
          (case parameters_or_variants E suite of
             Inl e \<Rightarrow> Inl e
           | Inr (b, s1) \<Rightarrow>
               if b then (case priv_get_test_variants E s1 of
                            Inl e \<Rightarrow> Inl e
                          | Inr (ts, s2) \<Rightarrow> Inr (s2\<lparr>tests := Some ts\<rparr>))
               else Inr s1))"

text \<open>\<^verbatim>\<open>not suite.tests\<close>.\<close>

definition no_tests :: "'v TestSuite \<Rightarrow> bool" where
  "no_tests s = (case tests s of None \<Rightarrow> True | Some ts \<Rightarrow> ts = [])"

definition no_tests_msg :: string where
  "no_tests_msg =
     ''Test Suite could not be created. No test references provided nor any other arguments resolved into tests''"

definition from_config ::
  "('v, 'h) env \<Rightarrow> config \<Rightarrow> string option \<Rightarrow> config option \<Rightarrow> error + 'v TestSuite" where
  "from_config E suite_config nm job_config =
     (case from_config_suite E suite_config nm job_config of
        Inl e \<Rightarrow> Inl e
      | Inr suite \<Rightarrow>
          if \<not> truthy (config_get (from_config_config E suite_config job_config)
                          ''run.ignore_missing_references'')
          then (if no_tests suite then Inl (TestSuiteError no_tests_msg) else Inr suite)
          else Inr suite)"

subsection \<open>Layered configuration, as specified\<close>

text \<open>
  The precedence the specification states: the suite configuration wins over the job
  configuration, which wins over the defaults, key by key. An absent layer has no keys.
\<close>

definition layer_get :: "config option \<Rightarrow> string \<Rightarrow> pyval option" where
  "layer_get l k = (case l of None \<Rightarrow> None | Some m \<Rightarrow> m k)"

definition config_precedence ::
  "config \<Rightarrow> config option \<Rightarrow> config option \<Rightarrow> string \<Rightarrow> pyval option" where
  "config_precedence defaults job_config suite_config k =
     (case layer_get suite_config k of
        Some v \<Rightarrow> Some v
      | None \<Rightarrow> (case layer_get job_config k of
                   Some v \<Rightarrow> Some v
                 | None \<Rightarrow> defaults k))"

subsection \<open>Example data\<close>

definition ex_runnable :: "string \<Rightarrow> string \<Rightarrow> variant_dict runnable" where
  "ex_runnable k u = \<lparr>kind = k, uri = u, default_config = Map.empty, tags = None, variant = None\<rparr>"

definition ex_variant :: "string \<Rightarrow> variant_dict" where
  "ex_variant n =
     \<lparr>vd_variant = TreeNode n [(PStr ''x'', PStr n)] [], variant_id = Some n, paths = [''/run/*'']\<rparr>"

definition ex_varianter :: "variant_dict list \<Rightarrow> varianter" where
  "ex_varianter xs = \<lparr>is_parsed = True, reported = length xs, itertests = xs\<rparr>"

definition ex_env ::
  "config \<Rightarrow> variant_dict list \<Rightarrow> variant_dict ReferenceResolution list \<Rightarrow> (variant_dict, unit) env" where
  "ex_env defaults xs rs =
     \<lparr>settings_as_dict = defaults,
      path_exists = (\<lambda>p. False),
      HintParser = (\<lambda>p. Inr ()),
      resolve = (\<lambda>refs h ign c. Inr rs),
      filter_tags_on_runnables = (\<lambda>rs t a b. Inr []),
      filter_runnable_config = (\<lambda>k c. c |` {''run.suite_runner''}),
      uuid4 = ''0000'',
      Varianter = \<lparr>is_parsed = False, reported = 0, itertests = []\<rparr>,
      parse = (\<lambda>v c. Inr (ex_varianter xs)),
      is_empty_variant = (\<lambda>t. node_value t = []),
      dump_variant = (\<lambda>x. x)\<rparr>"

definition ex_suite :: "variant_dict runnable list option \<Rightarrow> config \<Rightarrow> variant_dict TestSuite" where
  "ex_suite ts c =
     \<lparr>name = ''suite'', tests = ts, enabled = True, config = c,
      cached_variants = None, cached_test_parameters = None\<rparr>"

definition ex_both_config :: config where
  "ex_both_config =
     [''run.dry_run.enabled'' \<mapsto> PBool True,
      ''run.suite_runner'' \<mapsto> PStr ''nrunner'',
      ''run.test_parameters'' \<mapsto> PList [PTuple [PStr ''sleep'', PStr ''1'']]]"

definition ex_dry_config :: config where
  "ex_dry_config =
     [''run.dry_run.enabled'' \<mapsto> PBool True, ''run.suite_runner'' \<mapsto> PStr ''nrunner'']"

definition ex_empty_variant :: variant_dict where
  "ex_empty_variant = \<lparr>vd_variant = TreeNode [] [] [], variant_id = None, paths = [''/run/*'']\<rparr>"

definition ex_defaults :: config where
  "ex_defaults =
     [''run.suite_runner'' \<mapsto> PStr ''nrunner'',
      ''run.execution_order'' \<mapsto> PStr ''variants-per-test'',
      ''run.ignore_missing_references'' \<mapsto> PBool False]"

definition ex_job_config :: config where
  "ex_job_config =
     [''run.suite_runner'' \<mapsto> PStr ''job-runner'',
      ''run.execution_order'' \<mapsto> PStr ''tests-per-variant'']"

definition ex_suite_config :: config where
  "ex_suite_config = [''run.suite_runner'' \<mapsto> PStr ''suite-runner'']"

definition ex_tolerant_config :: config where
  "ex_tolerant_config =
     [''run.suite_runner'' \<mapsto> PStr ''suite-runner'',
      ''run.ignore_missing_references'' \<mapsto> PBool True]"

definition ex_built ::
  "string \<Rightarrow> variant_dict runnable list option \<Rightarrow> bool \<Rightarrow> config \<Rightarrow> varianter option \<Rightarrow>
   variant_dict TestSuite" where
  "ex_built n ts en c v =
     \<lparr>name = n, tests = ts, enabled = en, config = c,
      cached_variants = v, cached_test_parameters = Some []\<rparr>"

subsection \<open>Loops as list functions\<close>

lemma update_if_apply:
  "update_if base d k =
     (case d of None \<Rightarrow> base k
      | Some m \<Rightarrow> (case m k of Some v \<Rightarrow> Some v | None \<Rightarrow> base k))"
  by (auto simp: update_if_def map_add_def split: option.splits)

lemma set_default_configs_append:
  "set_default_configs E c rs acc =
     acc @ map (\<lambda>r. r\<lparr>default_config := filter_runnable_config E (kind r) c\<rparr>) rs"
  by (induction rs arbitrary: acc) simp_all

lemma collect_runnables_append:
  "collect_runnables E c xs acc =
     acc @ concat (map (\<lambda>x. map (\<lambda>r. r\<lparr>default_config := filter_runnable_config E (kind r) c\<rparr>)
                              (resolutions x))
                       (filter (\<lambda>x. result x = SUCCESS) xs))"
  by (induction xs arbitrary: acc) (simp_all add: set_default_configs_append)

lemma bind_all_tests_append:
  "bind_all_tests E x ts acc = acc @ map (\<lambda>r. r\<lparr>variant := Some (dump_variant E x)\<rparr>) ts"
  unfolding bind_all_tests_def
  by (induction ts arbitrary: acc) (simp_all add: add_variant_def)

lemma bind_all_variants_append:
  "bind_all_variants E r xs acc = acc @ map (\<lambda>x. r\<lparr>variant := Some (dump_variant E x)\<rparr>) xs"
  unfolding bind_all_variants_def
  by (induction xs arbitrary: acc) (simp_all add: add_variant_def)

lemma fold_append_concat:
  "fold (\<lambda>x a. a @ f x) xs acc = acc @ concat (map f xs)"
  by (induction xs arbitrary: acc) simp_all

lemma variants_per_test_concat:
  "variants_per_test E ts xs =
     concat (map (\<lambda>r. map (\<lambda>x. r\<lparr>variant := Some (dump_variant E x)\<rparr>) xs) ts)"
  by (simp add: variants_per_test_def bind_all_variants_append fold_append_concat)

lemma tests_per_variant_concat:
  "tests_per_variant E ts xs =
     concat (map (\<lambda>x. map (\<lambda>r. r\<lparr>variant := Some (dump_variant E x)\<rparr>) ts) xs)"
  by (simp add: tests_per_variant_def bind_all_tests_append fold_append_concat)

lemma length_concat_const:
  "length (concat (map (\<lambda>a. map (f a) ys) xs)) = length xs * length ys"
  by (induction xs) simp_all

lemma test_parameters_attrs:
  "test_parameters s = Inr (tp, s1) \<Longrightarrow>
     tests s1 = tests s \<and> config s1 = config s \<and> cached_variants s1 = cached_variants s
     \<and> cached_test_parameters s1 = Some tp \<and> s1 = s\<lparr>cached_test_parameters := Some tp\<rparr>"
  by (auto simp: test_parameters_def split: option.splits sum.splits)

lemma variants_attrs:
  "variants E s = Inr (v, s1) \<Longrightarrow>
     tests s1 = tests s \<and> config s1 = config s \<and> cached_test_parameters s1 = cached_test_parameters s
     \<and> cached_variants s1 = Some v \<and> s1 = s\<lparr>cached_variants := Some v\<rparr>"
  by (auto simp: variants_def Let_def split: option.splits sum.splits if_splits error.splits)

lemma some_variant_not_empty_iff:
  "some_variant_not_empty E xs = list_ex (\<lambda>x. \<not> is_empty_variant E (vd_variant x)) xs"
  by (induction xs) (simp_all add: Let_def)

subsection \<open>The example suite and engine evaluated\<close>

lemma ex_test_parameters_empty:
  "config_get_default c ''run.test_parameters'' (PList []) = PList [] \<Longrightarrow>
   test_parameters (ex_suite ts c) = Inr ([], (ex_suite ts c)\<lparr>cached_test_parameters := Some []\<rparr>)"
  by (simp add: test_parameters_def ex_suite_def)

lemma ex_variants:
  "cached_variants s = None \<Longrightarrow>
   variants (ex_env d xs rs) s = Inr (ex_varianter xs, s\<lparr>cached_variants := Some (ex_varianter xs)\<rparr>)"
  by (simp add: variants_def ex_env_def)

lemma test_parameters_other_key:
  assumes "test_parameters s = Inr (tp, s1)" and "k \<noteq> ''run.test_parameters''"
  shows "test_parameters (s\<lparr>config := (config s)(k := x)\<rparr>) =
           Inr (tp, s1\<lparr>config := (config s)(k := x)\<rparr>)"
  using assms
  by (auto simp: test_parameters_def config_get_default_def split: option.splits sum.splits)

lemma ex_test_parameters_pair:
  "c ''run.test_parameters'' = Some (PList [PTuple [PStr k, PStr x]]) \<Longrightarrow>
   test_parameters (ex_suite ts c) =
     Inr ([(PStr k, PStr x)], (ex_suite ts c)\<lparr>cached_test_parameters := Some [(PStr k, PStr x)]\<rparr>)"
  by (simp add: test_parameters_def ex_suite_def config_get_default_def unpack_pair_def)

lemma has_both_attrs:
  "priv_has_both_parameters_and_variants E s = Inr (b, s1) \<Longrightarrow>
     tests s1 = tests s \<and> config s1 = config s"
  unfolding priv_has_both_parameters_and_variants_def
  by (auto split: sum.splits prod.splits if_splits dest!: test_parameters_attrs variants_attrs)

lemma check_attrs:
  "priv_check_both_parameters_and_variants E s = Inr s1 \<Longrightarrow>
     tests s1 = tests s \<and> config s1 = config s"
  unfolding priv_check_both_parameters_and_variants_def
  by (auto split: sum.splits prod.splits if_splits dest!: has_both_attrs)

lemma ex_init_attributes:
  "c \<noteq> Map.empty \<Longrightarrow>
   init_attributes (ex_env Map.empty xs rs) ''suite'' (Some c) ts None None True = ex_suite ts c"
  by (simp add: init_attributes_def ex_suite_def ex_env_def update_if_def)

lemma ex_both_config_nonempty: "ex_both_config \<noteq> Map.empty"
  unfolding ex_both_config_def by (metis map_upd_nonempty)

lemma ex_dry_config_nonempty: "ex_dry_config \<noteq> Map.empty"
  unfolding ex_dry_config_def by (metis map_upd_nonempty)

lemma convert_config:
  "priv_convert_to_dry_run s = Inr s1 \<Longrightarrow> config s1 = config s"
  by (auto simp: priv_convert_to_dry_run_def split: if_splits option.splits)

lemma init_config:
  assumes "TestSuite_init E nm cfg ts jc rs en = Inr s"
  shows "config s = update_if (update_if (settings_as_dict E) jc) cfg"
proof -
  let ?s0 = "init_attributes E nm cfg ts jc rs en"
  obtain s1 where c: "priv_check_both_parameters_and_variants E ?s0 = Inr s1"
    and d: "(if truthy (config_get (config s1) ''run.dry_run.enabled'')
             then priv_convert_to_dry_run s1 else Inr s1) = Inr s"
    using assms by (auto simp: TestSuite_init_def split: sum.splits)
  have "config s = config s1"
    using d convert_config by (auto split: if_splits)
  also have "\<dots> = config ?s0"
    using check_attrs [OF c] by simp
  finally show ?thesis
    by (simp add: init_attributes_def)
qed

lemma with_resolver_config:
  assumes "priv_from_config_with_resolver E c nm = Inr s"
  shows "config s = update_if (settings_as_dict E) (Some c)"
proof -
  obtain n ts rs where "TestSuite_init E n (Some c) ts None rs True = Inr s"
    using assms
    by (auto simp: priv_from_config_with_resolver_def Let_def
        split: sum.splits error.splits if_splits)
  from init_config [OF this] show ?thesis
    by (simp add: update_if_def)
qed

lemma parameters_or_variants_config:
  "parameters_or_variants E s = Inr (b, s1) \<Longrightarrow> config s1 = config s"
  unfolding parameters_or_variants_def
  by (auto split: sum.splits prod.splits if_splits dest!: test_parameters_attrs variants_attrs)

lemma get_test_variants_config:
  "priv_get_test_variants E s = Inr (bs, s1) \<Longrightarrow> config s1 = config s"
  unfolding priv_get_test_variants_def Let_def
  by (auto split: sum.splits prod.splits if_splits option.splits
      dest!: test_parameters_attrs variants_attrs)

lemma from_config_suite_config:
  assumes "from_config_suite E sc nm jc = Inr s"
  shows "config s = update_if (settings_as_dict E) (Some (from_config_config E sc jc))"
proof -
  obtain s0 where r: "priv_from_config_with_resolver E (from_config_config E sc jc) nm = Inr s0"
    using assms by (auto simp: from_config_suite_def split: sum.splits)
  obtain b s1 where p: "parameters_or_variants E s0 = Inr (b, s1)"
    using assms r by (auto simp: from_config_suite_def split: sum.splits)
  have "config s = config s1"
    using assms r p
    by (auto simp: from_config_suite_def split: sum.splits if_splits dest: get_test_variants_config)
  then show ?thesis
    using with_resolver_config [OF r] parameters_or_variants_config [OF p] by simp
qed

lemma from_config_result:
  "from_config E sc nm jc = Inr s \<Longrightarrow> from_config_suite E sc nm jc = Inr s"
  by (auto simp: from_config_def split: sum.splits if_splits)

lemma merged_over_defaults:
  "update_if d (Some (update_if d jc ++ sc)) = update_if d jc ++ sc"
proof (rule ext)
  fix k
  show "update_if d (Some (update_if d jc ++ sc)) k = (update_if d jc ++ sc) k"
  proof (cases "update_if d jc ++ sc = Map.empty")
    case True
    then have "(update_if d jc ++ sc) k = None"
      by simp
    then have "d k = None"
      by (auto simp: update_if_apply map_add_def split: option.splits)
    with True show ?thesis
      by (simp add: update_if_def)
  next
    case False
    then show ?thesis
      by (auto simp: update_if_def map_add_def split: option.splits)
  qed
qed

lemma ex_TestSuite_init:
  assumes "c = update_if (update_if D jc) cfg"
    and "c ''run.test_parameters'' = None"
    and "c ''run.dry_run.enabled'' = None"
  shows "TestSuite_init (ex_env D xs rs) n cfg ts jc rs' en = Inr (ex_built n ts en c None)"
proof -
  let ?E = "ex_env D xs rs"
  let ?s0 = "init_attributes ?E n cfg ts jc rs' en"
  have i: "?s0 = \<lparr>name = n, tests = ts, enabled = en, config = c,
                    cached_variants = None, cached_test_parameters = None\<rparr>"
    using assms(1) by (simp add: init_attributes_def ex_env_def)
  have p: "test_parameters ?s0 = Inr ([], ex_built n ts en c None)"
    using assms(2) by (simp add: i test_parameters_def config_get_default_def ex_built_def)
  have "priv_check_both_parameters_and_variants ?E ?s0 = Inr (ex_built n ts en c None)"
    by (simp add: p priv_check_both_parameters_and_variants_def
        priv_has_both_parameters_and_variants_def)
  moreover have "\<not> truthy (config_get (config (ex_built n ts en c None)) ''run.dry_run.enabled'')"
    using assms(3) by (simp add: ex_built_def config_get_def)
  ultimately show ?thesis
    by (simp add: TestSuite_init_def)
qed

lemma ex_from_config_suite:
  assumes "c = from_config_config (ex_env D [] rs) sc jc"
    and "c ''filter.by_tags.tags'' = None"
    and "c ''run.test_parameters'' = None"
    and "c ''run.dry_run.enabled'' = None"
  shows "from_config_suite (ex_env D [] rs) sc (Some n) jc =
           Inr (ex_built n (Some (collect_runnables (ex_env D [] rs) c rs [])) True c
                  (Some (ex_varianter [])))"
proof -
  let ?E = "ex_env D [] rs"
  let ?ts = "collect_runnables ?E c rs []"
  let ?s = "ex_built n (Some ?ts) True c None"
  have m: "c = update_if (update_if D None) (Some c)"
    using assms(1) merged_over_defaults [of D jc sc]
    by (simp add: from_config_config_def ex_env_def update_if_def)
  have r: "resolutions_to_runnables ?E rs c = Inr ?ts"
    using assms(2) by (simp add: resolutions_to_runnables_def config_get_def)
  have e: "path_exists ?E p = False" "resolve ?E a b d c = Inr rs" for p a b d
    by (simp_all add: ex_env_def)
  have w: "priv_from_config_with_resolver ?E c (Some n) = Inr ?s"
    by (simp add: priv_from_config_with_resolver_def e r
        ex_TestSuite_init [OF m assms(3) assms(4)])
  have v: "variants ?E ?s = Inr (ex_varianter [], ?s\<lparr>cached_variants := Some (ex_varianter [])\<rparr>)"
    by (rule ex_variants) (simp add: ex_built_def)
  have "parameters_or_variants ?E ?s = Inr (False, ?s\<lparr>cached_variants := Some (ex_varianter [])\<rparr>)"
    by (simp add: parameters_or_variants_def test_parameters_def ex_built_def v [unfolded ex_built_def]
        varianter_truthy_def ex_varianter_def)
  then show ?thesis
    using w assms(1) by (simp add: from_config_suite_def ex_built_def)
qed

subsection \<open>The status is a projection of the test list\<close>

text \<open>
  C9. The status of a suite is determined by \<^verbatim>\<open>tests\<close> alone:
  \<^verbatim>\<open>RESOLUTION_NOT_STARTED\<close> when it is \<^verbatim>\<open>None\<close>, \<^verbatim>\<open>TESTS_NOT_FOUND\<close> when
  it is the empty list, \<^verbatim>\<open>TESTS_FOUND\<close> when it has an element; it is never
  \<^verbatim>\<open>UNKNOWN\<close>.
\<close>
theorem status_projection:
  "status s =
     (case tests s of
        None \<Rightarrow> RESOLUTION_NOT_STARTED
      | Some ts \<Rightarrow> if ts = [] then TESTS_NOT_FOUND else TESTS_FOUND)
   \<and> status s \<noteq> UNKNOWN"
  by (simp add: status_def suite_size_def split: option.splits)

subsection \<open>Dry-run conversion\<close>

text \<open>
  C8. On a suite whose test list is set, the dry-run conversion returns, and a second
  conversion returns the same test list, so the kind of every runnable after two
  conversions is its kind after one; the configuration stays as it is. When
  \<^verbatim>\<open>run.suite_runner\<close> is \<^verbatim>\<open>"nrunner"\<close> the test list is the old one with the
  kind of every runnable set to \<^verbatim>\<open>"dry-run"\<close> and the other fields of each runnable
  as they were; otherwise the conversion changes nothing.
\<close>

theorem dry_run_idempotent:
  assumes "tests s = Some ts"
  shows "\<exists>s1 s2. priv_convert_to_dry_run s = Inr s1
            \<and> priv_convert_to_dry_run s1 = Inr s2
            \<and> tests s2 = tests s1
            \<and> config s2 = config s1
            \<and> config s1 = config s
            \<and> (if config_get (config s) ''run.suite_runner'' = PStr ''nrunner''
                then tests s1 = Some (map (\<lambda>r. r\<lparr>kind := ''dry-run''\<rparr>) ts)
                else s1 = s)"
proof (cases "config_get (config s) ''run.suite_runner'' = PStr ''nrunner''")
  case True
  let ?s1 = "s\<lparr>tests := Some (map (\<lambda>r. r\<lparr>kind := ''dry-run''\<rparr>) ts)\<rparr>"
  have once: "priv_convert_to_dry_run s = Inr ?s1"
    using True assms by (simp add: priv_convert_to_dry_run_def)
  have twice: "priv_convert_to_dry_run ?s1 = Inr ?s1"
    using True by (simp add: priv_convert_to_dry_run_def comp_def)
  have "tests ?s1 = Some (map (\<lambda>r. r\<lparr>kind := ''dry-run''\<rparr>) ts)" and "config ?s1 = config s"
    by simp_all
  with once twice True show ?thesis
    by metis
next
  case False
  then have "priv_convert_to_dry_run s = Inr s"
    by (simp add: priv_convert_to_dry_run_def)
  with False show ?thesis
    by auto
qed

theorem dry_run_idempotent_witness:
  "tests (ex_suite (Some [ex_runnable ''exec-test'' ''/bin/true''])
            [''run.suite_runner'' \<mapsto> PStr ''nrunner''])
     = Some [ex_runnable ''exec-test'' ''/bin/true'']
   \<and> (case priv_convert_to_dry_run (ex_suite (Some [ex_runnable ''exec-test'' ''/bin/true''])
               [''run.suite_runner'' \<mapsto> PStr ''nrunner'']) of
        Inl e \<Rightarrow> None
      | Inr s1 \<Rightarrow> tests s1)
     = Some [ex_runnable ''dry-run'' ''/bin/true'']"
proof -
  let ?s = "ex_suite (Some [ex_runnable ''exec-test'' ''/bin/true''])
              [''run.suite_runner'' \<mapsto> PStr ''nrunner'']"
  have h: "tests ?s = Some [ex_runnable ''exec-test'' ''/bin/true'']"
    by (simp add: ex_suite_def)
  have r: "config_get (config ?s) ''run.suite_runner'' = PStr ''nrunner''"
    by (simp add: ex_suite_def config_get_def)
  from dry_run_idempotent [OF h] r
  obtain s1 where a: "priv_convert_to_dry_run ?s = Inr s1"
    and b: "tests s1 = Some (map (\<lambda>r. r\<lparr>kind := ''dry-run''\<rparr>)
                                [ex_runnable ''exec-test'' ''/bin/true''])"
    by auto
  have "tests s1 = Some [ex_runnable ''dry-run'' ''/bin/true'']"
    using b by (simp add: ex_runnable_def)
  then show ?thesis
    using h a by simp
qed

subsection \<open>Resolutions without a tag filter\<close>

text \<open>
  C4. When \<^verbatim>\<open>filter.by_tags.tags\<close> is falsy, \<^verbatim>\<open>resolutions_to_runnables\<close>
  returns the runnables of the resolutions whose result is \<^verbatim>\<open>SUCCESS\<close>, in
  resolution order and then in the order within a resolution, each with
  \<^verbatim>\<open>default_config\<close> set to \<^verbatim>\<open>filter_runnable_config(kind, config)\<close>; their
  number is the total number of runnables of the successful resolutions.
\<close>
theorem resolutions_unfiltered:
  assumes "\<not> truthy (config_get c ''filter.by_tags.tags'')"
  shows "resolutions_to_runnables E rs c =
           Inr (concat (map (\<lambda>x. map (\<lambda>r. r\<lparr>default_config := filter_runnable_config E (kind r) c\<rparr>)
                                     (resolutions x))
                            (filter (\<lambda>x. result x = SUCCESS) rs)))
       \<and> (\<exists>out. resolutions_to_runnables E rs c = Inr out
                \<and> length out = sum_list (map (\<lambda>x. length (resolutions x))
                                              (filter (\<lambda>x. result x = SUCCESS) rs)))"
  using assms
  by (simp add: resolutions_to_runnables_def collect_runnables_append length_concat comp_def)

theorem resolutions_unfiltered_witness:
  "\<not> truthy (config_get [''run.suite_runner'' \<mapsto> PStr ''nrunner''] ''filter.by_tags.tags'')
   \<and> resolutions_to_runnables (ex_env Map.empty [] [])
        [\<lparr>reference = ''a'', result = SUCCESS,
          resolutions = [ex_runnable ''exec-test'' ''a1'', ex_runnable ''python'' ''a2'']\<rparr>,
         \<lparr>reference = ''b'', result = OtherResult ''NOTFOUND'',
          resolutions = [ex_runnable ''exec-test'' ''b1'']\<rparr>,
         \<lparr>reference = ''c'', result = SUCCESS, resolutions = [ex_runnable ''tap'' ''c1'']\<rparr>]
        [''run.suite_runner'' \<mapsto> PStr ''nrunner'']
     = Inr [(ex_runnable ''exec-test'' ''a1'')\<lparr>default_config := [''run.suite_runner'' \<mapsto> PStr ''nrunner'']\<rparr>,
            (ex_runnable ''python'' ''a2'')\<lparr>default_config := [''run.suite_runner'' \<mapsto> PStr ''nrunner'']\<rparr>,
            (ex_runnable ''tap'' ''c1'')\<lparr>default_config := [''run.suite_runner'' \<mapsto> PStr ''nrunner'']\<rparr>]"
proof -
  let ?c = "[''run.suite_runner'' \<mapsto> PStr ''nrunner'']"
  have h: "\<not> truthy (config_get ?c ''filter.by_tags.tags'')"
    by (simp add: config_get_def)
  have f: "filter_runnable_config (ex_env Map.empty [] []) k ?c = ?c" for k
    by (rule ext) (simp add: ex_env_def restrict_map_def)
  note eq = resolutions_unfiltered [OF h, THEN conjunct1]
  show ?thesis
    using h by (simp add: eq f)
qed

subsection \<open>An unsupported execution order\<close>

text \<open>
  C6. On a suite with empty test parameters whose variant engine reports at least one
  variant, when \<^verbatim>\<open>run.execution_order\<close> is neither \<^verbatim>\<open>"variants-per-test"\<close>
  nor \<^verbatim>\<open>"tests-per-variant"\<close> (an absent key reads as \<^verbatim>\<open>None\<close>),
  \<^verbatim>\<open>_get_test_variants\<close> returns the empty list and raises nothing.
\<close>
theorem unsupported_order_empty:
  assumes "test_parameters s = Inr ([], s1)"
    and "variants E s1 = Inr (v, s2)"
    and "varianter_truthy v"
    and "config_get (config s) ''run.execution_order'' \<noteq> PStr ''variants-per-test''"
    and "config_get (config s) ''run.execution_order'' \<noteq> PStr ''tests-per-variant''"
  shows "priv_get_test_variants E s = Inr ([], s2)"
proof -
  have "config s2 = config s"
    using assms(1,2) test_parameters_attrs variants_attrs by metis
  then show ?thesis
    using assms by (simp add: priv_get_test_variants_def)
qed

theorem unsupported_order_empty_witness:
  "priv_get_test_variants (ex_env Map.empty [ex_variant ''a''] [])
      (ex_suite (Some [ex_runnable ''exec-test'' ''/bin/true''])
         [''run.execution_order'' \<mapsto> PStr ''random''])
   = Inr ([], (ex_suite (Some [ex_runnable ''exec-test'' ''/bin/true''])
                 [''run.execution_order'' \<mapsto> PStr ''random''])
              \<lparr>cached_variants := Some (ex_varianter [ex_variant ''a'']),
               cached_test_parameters := Some []\<rparr>)"
proof -
  let ?E = "ex_env Map.empty [ex_variant ''a''] []"
  let ?s = "ex_suite (Some [ex_runnable ''exec-test'' ''/bin/true''])
              [''run.execution_order'' \<mapsto> PStr ''random'']"
  let ?s1 = "?s\<lparr>cached_test_parameters := Some []\<rparr>"
  let ?v = "ex_varianter [ex_variant ''a'']"
  have h1: "test_parameters ?s = Inr ([], ?s1)"
    by (rule ex_test_parameters_empty) (simp add: config_get_default_def)
  have h2: "variants ?E ?s1 = Inr (?v, ?s1\<lparr>cached_variants := Some ?v\<rparr>)"
    by (rule ex_variants) (simp add: ex_suite_def)
  have h3: "varianter_truthy ?v"
    by (simp add: varianter_truthy_def ex_varianter_def)
  have h4: "config_get (config ?s) ''run.execution_order'' \<noteq> PStr ''variants-per-test''"
    by (simp add: ex_suite_def config_get_def)
  have h5: "config_get (config ?s) ''run.execution_order'' \<noteq> PStr ''tests-per-variant''"
    by (simp add: ex_suite_def config_get_def)
  from unsupported_order_empty [OF h1 h2 h3 h4 h5] show ?thesis
    by (simp add: ex_suite_def)
qed

subsection \<open>Expansion against the variants of the engine\<close>

text \<open>
  C2, as amended. On a suite with \<open>T\<close> tests and empty test parameters whose variant
  engine reports at least one variant and yields \<open>V\<close> variants, when
  \<^verbatim>\<open>run.execution_order\<close> is one of the two recognised values,
  \<^verbatim>\<open>_get_test_variants\<close> returns \<open>T * V\<close> bindings: under
  \<^verbatim>\<open>"variants-per-test"\<close> the first test bound to each variant in turn, then the
  second test, and so on; under \<^verbatim>\<open>"tests-per-variant"\<close> each test bound to the
  first variant, then each test bound to the second, and so on.
\<close>

theorem expansion_order_and_size:
  assumes "test_parameters s = Inr ([], s1)"
    and "variants E s1 = Inr (v, s2)"
    and "varianter_truthy v"
    and "tests s = Some ts"
  shows "(config_get (config s) ''run.execution_order'' = PStr ''variants-per-test'' \<longrightarrow>
            priv_get_test_variants E s =
              Inr (concat (map (\<lambda>r. map (\<lambda>x. r\<lparr>variant := Some (dump_variant E x)\<rparr>) (itertests v)) ts),
                   s2))
       \<and> (config_get (config s) ''run.execution_order'' = PStr ''tests-per-variant'' \<longrightarrow>
            priv_get_test_variants E s =
              Inr (concat (map (\<lambda>x. map (\<lambda>r. r\<lparr>variant := Some (dump_variant E x)\<rparr>) ts) (itertests v)),
                   s2))
       \<and> (config_get (config s) ''run.execution_order'' = PStr ''variants-per-test''
            \<or> config_get (config s) ''run.execution_order'' = PStr ''tests-per-variant'' \<longrightarrow>
            (\<exists>bs. priv_get_test_variants E s = Inr (bs, s2)
                  \<and> length bs = length ts * length (itertests v)))"
proof -
  have c: "config s2 = config s" and t: "tests s2 = Some ts"
    using assms(1,2,4) test_parameters_attrs variants_attrs by metis+
  have vpt: "priv_get_test_variants E s =
               Inr (concat (map (\<lambda>r. map (\<lambda>x. r\<lparr>variant := Some (dump_variant E x)\<rparr>) (itertests v)) ts), s2)"
    if "config_get (config s) ''run.execution_order'' = PStr ''variants-per-test''"
    using that assms(1,2,3) c t
    by (simp add: priv_get_test_variants_def variants_per_test_concat)
  have tpv: "priv_get_test_variants E s =
               Inr (concat (map (\<lambda>x. map (\<lambda>r. r\<lparr>variant := Some (dump_variant E x)\<rparr>) ts) (itertests v)), s2)"
    if "config_get (config s) ''run.execution_order'' = PStr ''tests-per-variant''"
    using that assms(1,2,3) c t
    by (simp add: priv_get_test_variants_def tests_per_variant_concat)
  have l1: "length (concat (map (\<lambda>r. map (\<lambda>x. r\<lparr>variant := Some (dump_variant E x)\<rparr>) (itertests v)) ts))
              = length ts * length (itertests v)"
    by (rule length_concat_const)
  have l2: "length (concat (map (\<lambda>x. map (\<lambda>r. r\<lparr>variant := Some (dump_variant E x)\<rparr>) ts) (itertests v)))
              = length ts * length (itertests v)"
    by (simp add: length_concat_const [of "\<lambda>x r. r\<lparr>variant := Some (dump_variant E x)\<rparr>"] mult.commute)
  show ?thesis
    using vpt tpv l1 l2 by auto
qed

theorem expansion_order_and_size_witness:
  "priv_get_test_variants (ex_env Map.empty [ex_variant ''a'', ex_variant ''b''] [])
      (ex_suite (Some [ex_runnable ''exec-test'' ''t1'', ex_runnable ''exec-test'' ''t2''])
         [''run.execution_order'' \<mapsto> PStr ''variants-per-test''])
   = Inr ([(ex_runnable ''exec-test'' ''t1'')\<lparr>variant := Some (ex_variant ''a'')\<rparr>,
           (ex_runnable ''exec-test'' ''t1'')\<lparr>variant := Some (ex_variant ''b'')\<rparr>,
           (ex_runnable ''exec-test'' ''t2'')\<lparr>variant := Some (ex_variant ''a'')\<rparr>,
           (ex_runnable ''exec-test'' ''t2'')\<lparr>variant := Some (ex_variant ''b'')\<rparr>],
          (ex_suite (Some [ex_runnable ''exec-test'' ''t1'', ex_runnable ''exec-test'' ''t2''])
             [''run.execution_order'' \<mapsto> PStr ''variants-per-test''])
          \<lparr>cached_variants := Some (ex_varianter [ex_variant ''a'', ex_variant ''b'']),
           cached_test_parameters := Some []\<rparr>)
   \<and> priv_get_test_variants (ex_env Map.empty [ex_variant ''a'', ex_variant ''b''] [])
      (ex_suite (Some [ex_runnable ''exec-test'' ''t1'', ex_runnable ''exec-test'' ''t2''])
         [''run.execution_order'' \<mapsto> PStr ''tests-per-variant''])
   = Inr ([(ex_runnable ''exec-test'' ''t1'')\<lparr>variant := Some (ex_variant ''a'')\<rparr>,
           (ex_runnable ''exec-test'' ''t2'')\<lparr>variant := Some (ex_variant ''a'')\<rparr>,
           (ex_runnable ''exec-test'' ''t1'')\<lparr>variant := Some (ex_variant ''b'')\<rparr>,
           (ex_runnable ''exec-test'' ''t2'')\<lparr>variant := Some (ex_variant ''b'')\<rparr>],
          (ex_suite (Some [ex_runnable ''exec-test'' ''t1'', ex_runnable ''exec-test'' ''t2''])
             [''run.execution_order'' \<mapsto> PStr ''tests-per-variant''])
          \<lparr>cached_variants := Some (ex_varianter [ex_variant ''a'', ex_variant ''b'']),
           cached_test_parameters := Some []\<rparr>)"
proof -
  let ?E = "ex_env Map.empty [ex_variant ''a'', ex_variant ''b''] []"
  let ?ts = "[ex_runnable ''exec-test'' ''t1'', ex_runnable ''exec-test'' ''t2'']"
  let ?v = "ex_varianter [ex_variant ''a'', ex_variant ''b'']"
  have h3: "varianter_truthy ?v"
    by (simp add: varianter_truthy_def ex_varianter_def)
  have d: "dump_variant ?E x = x" for x
    by (simp add: ex_env_def)
  have run: "priv_get_test_variants ?E (ex_suite (Some ?ts) [''run.execution_order'' \<mapsto> PStr eo])
      = Inr (if eo = ''variants-per-test''
             then concat (map (\<lambda>r. map (\<lambda>x. r\<lparr>variant := Some (dump_variant ?E x)\<rparr>) (itertests ?v)) ?ts)
             else concat (map (\<lambda>x. map (\<lambda>r. r\<lparr>variant := Some (dump_variant ?E x)\<rparr>) ?ts) (itertests ?v)),
             (ex_suite (Some ?ts) [''run.execution_order'' \<mapsto> PStr eo])
             \<lparr>cached_test_parameters := Some [], cached_variants := Some ?v\<rparr>)"
    if "eo = ''variants-per-test'' \<or> eo = ''tests-per-variant''" for eo
  proof -
    let ?s = "ex_suite (Some ?ts) [''run.execution_order'' \<mapsto> PStr eo]"
    let ?s1 = "?s\<lparr>cached_test_parameters := Some []\<rparr>"
    have h1: "test_parameters ?s = Inr ([], ?s1)"
      by (rule ex_test_parameters_empty) (simp add: config_get_default_def)
    have h2: "variants ?E ?s1 = Inr (?v, ?s1\<lparr>cached_variants := Some ?v\<rparr>)"
      by (rule ex_variants) (simp add: ex_suite_def)
    have h4: "tests ?s = Some ?ts"
      by (simp add: ex_suite_def)
    have ord: "config_get (config ?s) ''run.execution_order'' = PStr eo"
      by (simp add: ex_suite_def config_get_def)
    from expansion_order_and_size [OF h1 h2 h3 h4] ord that show ?thesis
      by auto
  qed
  from run [of "''variants-per-test''"] run [of "''tests-per-variant''"] show ?thesis
    by (simp add: d ex_varianter_def ex_suite_def)
qed

text \<open>
  C2 as stated fails: the number of bindings is not \<open>T * V\<close> for every such suite. With
  one test, one variant and no \<^verbatim>\<open>run.execution_order\<close> in the configuration, neither
  loop runs and the result is empty.
\<close>

theorem expansion_order_and_size_counterexample:
  "test_parameters (ex_suite (Some [ex_runnable ''exec-test'' ''t1'']) Map.empty)
     = Inr ([], (ex_suite (Some [ex_runnable ''exec-test'' ''t1'']) Map.empty)
                \<lparr>cached_test_parameters := Some []\<rparr>)
   \<and> variants (ex_env Map.empty [ex_variant ''a''] [])
        ((ex_suite (Some [ex_runnable ''exec-test'' ''t1'']) Map.empty)
           \<lparr>cached_test_parameters := Some []\<rparr>)
     = Inr (ex_varianter [ex_variant ''a''],
            (ex_suite (Some [ex_runnable ''exec-test'' ''t1'']) Map.empty)
              \<lparr>cached_test_parameters := Some [],
               cached_variants := Some (ex_varianter [ex_variant ''a''])\<rparr>)
   \<and> varianter_truthy (ex_varianter [ex_variant ''a''])
   \<and> length (itertests (ex_varianter [ex_variant ''a''])) = 1
   \<and> tests (ex_suite (Some [ex_runnable ''exec-test'' ''t1'']) Map.empty)
     = Some [ex_runnable ''exec-test'' ''t1'']
   \<and> priv_get_test_variants (ex_env Map.empty [ex_variant ''a''] [])
        (ex_suite (Some [ex_runnable ''exec-test'' ''t1'']) Map.empty)
     = Inr ([], (ex_suite (Some [ex_runnable ''exec-test'' ''t1'']) Map.empty)
                \<lparr>cached_test_parameters := Some [],
                 cached_variants := Some (ex_varianter [ex_variant ''a''])\<rparr>)
   \<and> length ([] :: variant_dict runnable list)
     \<noteq> length [ex_runnable ''exec-test'' ''t1''] * length (itertests (ex_varianter [ex_variant ''a'']))"
proof -
  let ?E = "ex_env Map.empty [ex_variant ''a''] []"
  let ?s = "ex_suite (Some [ex_runnable ''exec-test'' ''t1'']) Map.empty"
  let ?s1 = "?s\<lparr>cached_test_parameters := Some []\<rparr>"
  let ?v = "ex_varianter [ex_variant ''a'']"
  have p: "test_parameters ?s = Inr ([], ?s1)"
    by (rule ex_test_parameters_empty) (simp add: config_get_default_def)
  have v: "variants ?E ?s1 = Inr (?v, ?s1\<lparr>cached_variants := Some ?v\<rparr>)"
    by (rule ex_variants) (simp add: ex_suite_def)
  have t: "varianter_truthy ?v" and n: "length (itertests ?v) = 1"
    by (simp_all add: varianter_truthy_def ex_varianter_def)
  have c: "config (?s1\<lparr>cached_variants := Some ?v\<rparr>) = Map.empty"
    by (simp add: ex_suite_def)
  have g: "priv_get_test_variants ?E ?s = Inr ([], ?s1\<lparr>cached_variants := Some ?v\<rparr>)"
    by (simp add: priv_get_test_variants_def p v t c config_get_def)
  have k: "tests ?s = Some [ex_runnable ''exec-test'' ''t1'']"
    by (simp add: ex_suite_def)
  show ?thesis
    unfolding p v g k n using t by simp
qed

subsection \<open>Expansion against the test parameters\<close>

text \<open>
  C5. On a suite with \<open>T\<close> tests and non-empty test parameters,
  \<^verbatim>\<open>_get_test_variants\<close> returns \<open>T\<close> bindings in the order of the tests, each to
  the one synthetic variant with \<^verbatim>\<open>variant_id\<close> \<^verbatim>\<open>None\<close>, the single path
  \<^verbatim>\<open>"/"\<close> and a single node that carries the parameters; whatever
  \<^verbatim>\<open>run.execution_order\<close> is set to (or its absence) gives the same bindings.
\<close>
theorem parameters_expansion:
  assumes "test_parameters s = Inr (tp, s1)"
    and "tp \<noteq> []"
    and "tests s = Some ts"
  shows "priv_get_test_variants E s =
           Inr (map (\<lambda>r. r\<lparr>variant := Some (dump_variant E (parameters_variant tp))\<rparr>) ts, s1)
       \<and> length (map (\<lambda>r. r\<lparr>variant := Some (dump_variant E (parameters_variant tp))\<rparr>) ts) = length ts
       \<and> parameters_variant tp =
           \<lparr>vd_variant = TreeNode [] tp [], variant_id = None, paths = [''/'']\<rparr>
       \<and> priv_get_test_variants E (s\<lparr>config := (config s)(''run.execution_order'' := eo)\<rparr>) =
           Inr (map (\<lambda>r. r\<lparr>variant := Some (dump_variant E (parameters_variant tp))\<rparr>) ts,
                s1\<lparr>config := (config s)(''run.execution_order'' := eo)\<rparr>)"
proof -
  have t: "tests s1 = Some ts"
    using assms(1,3) test_parameters_attrs by metis
  have a: "priv_get_test_variants E s =
             Inr (map (\<lambda>r. r\<lparr>variant := Some (dump_variant E (parameters_variant tp))\<rparr>) ts, s1)"
    using assms(1,2) t by (simp add: priv_get_test_variants_def bind_all_tests_append)
  have b: "parameters_variant tp =
             \<lparr>vd_variant = TreeNode [] tp [], variant_id = None, paths = [''/'']\<rparr>"
    by (simp add: parameters_variant_def get_node_root_def)
  let ?s' = "s\<lparr>config := (config s)(''run.execution_order'' := eo)\<rparr>"
  have p: "test_parameters ?s' = Inr (tp, s1\<lparr>config := (config s)(''run.execution_order'' := eo)\<rparr>)"
    by (rule test_parameters_other_key [OF assms(1)]) simp
  have c: "priv_get_test_variants E ?s' =
             Inr (map (\<lambda>r. r\<lparr>variant := Some (dump_variant E (parameters_variant tp))\<rparr>) ts,
                  s1\<lparr>config := (config s)(''run.execution_order'' := eo)\<rparr>)"
    using p assms(2) t by (simp add: priv_get_test_variants_def bind_all_tests_append)
  from a b c show ?thesis by simp
qed

theorem parameters_expansion_witness:
  "priv_get_test_variants (ex_env Map.empty [] [])
      (ex_suite (Some [ex_runnable ''exec-test'' ''t1'', ex_runnable ''exec-test'' ''t2''])
         [''run.test_parameters'' \<mapsto> PList [PTuple [PStr ''sleep'', PStr ''1'']]])
   = Inr ([(ex_runnable ''exec-test'' ''t1'')
             \<lparr>variant := Some \<lparr>vd_variant = TreeNode [] [(PStr ''sleep'', PStr ''1'')] [],
                               variant_id = None, paths = [''/'']\<rparr>\<rparr>,
           (ex_runnable ''exec-test'' ''t2'')
             \<lparr>variant := Some \<lparr>vd_variant = TreeNode [] [(PStr ''sleep'', PStr ''1'')] [],
                               variant_id = None, paths = [''/'']\<rparr>\<rparr>],
          (ex_suite (Some [ex_runnable ''exec-test'' ''t1'', ex_runnable ''exec-test'' ''t2''])
             [''run.test_parameters'' \<mapsto> PList [PTuple [PStr ''sleep'', PStr ''1'']]])
          \<lparr>cached_test_parameters := Some [(PStr ''sleep'', PStr ''1'')]\<rparr>)"
proof -
  let ?E = "ex_env Map.empty [] []"
  let ?ts = "[ex_runnable ''exec-test'' ''t1'', ex_runnable ''exec-test'' ''t2'']"
  let ?s = "ex_suite (Some ?ts) [''run.test_parameters'' \<mapsto> PList [PTuple [PStr ''sleep'', PStr ''1'']]]"
  let ?tp = "[(PStr ''sleep'', PStr ''1'')]"
  have h1: "test_parameters ?s = Inr (?tp, ?s\<lparr>cached_test_parameters := Some ?tp\<rparr>)"
    by (rule ex_test_parameters_pair) simp
  have h2: "?tp \<noteq> []"
    by simp
  have h3: "tests ?s = Some ?ts"
    by (simp add: ex_suite_def)
  have d: "dump_variant ?E x = x" for x
    by (simp add: ex_env_def)
  note r = parameters_expansion [OF h1 h2 h3, of ?E None]
  from r have "priv_get_test_variants ?E ?s =
      Inr (map (\<lambda>r. r\<lparr>variant := Some (dump_variant ?E (parameters_variant ?tp))\<rparr>) ?ts,
           ?s\<lparr>cached_test_parameters := Some ?tp\<rparr>)"
    by (rule conjunct1)
  moreover from r have "parameters_variant ?tp =
      \<lparr>vd_variant = TreeNode [] ?tp [], variant_id = None, paths = [''/'']\<rparr>"
    by blast
  ultimately show ?thesis
    by (simp add: d)
qed

subsection \<open>Parameters and variants exclude each other\<close>

text \<open>
  C1. A construction whose test parameters are not empty and whose variant engine yields
  a variant that is not empty raises the \<^verbatim>\<open>TestSuiteError\<close> of the mutual-exclusion
  check. With only one of the two present the check returns without raising: either the
  test parameters are empty, or they are not and every variant the engine yields is
  empty.
\<close>

theorem mutual_exclusion:
  "(test_parameters (init_attributes E nm cfg ts jc rs en) = Inr (tp, s1) \<and> tp \<noteq> []
      \<and> variants E s1 = Inr (v, s2)
      \<and> list_ex (\<lambda>x. \<not> is_empty_variant E (vd_variant x)) (itertests v)
    \<longrightarrow> TestSuite_init E nm cfg ts jc rs en = Inl (TestSuiteError err_msg))
   \<and> (test_parameters (init_attributes E nm cfg ts jc rs en) = Inr ([], s1)
    \<longrightarrow> priv_check_both_parameters_and_variants E (init_attributes E nm cfg ts jc rs en) = Inr s1)
   \<and> (test_parameters (init_attributes E nm cfg ts jc rs en) = Inr (tp, s1) \<and> tp \<noteq> []
      \<and> variants E s1 = Inr (v, s2)
      \<and> list_all (\<lambda>x. is_empty_variant E (vd_variant x)) (itertests v)
    \<longrightarrow> priv_check_both_parameters_and_variants E (init_attributes E nm cfg ts jc rs en) = Inr s2)"
proof -
  let ?s0 = "init_attributes E nm cfg ts jc rs en"
  have both: "TestSuite_init E nm cfg ts jc rs en = Inl (TestSuiteError err_msg)"
    if "test_parameters ?s0 = Inr (tp, s1)" "tp \<noteq> []" "variants E s1 = Inr (v, s2)"
       "list_ex (\<lambda>x. \<not> is_empty_variant E (vd_variant x)) (itertests v)"
  proof -
    have "priv_has_both_parameters_and_variants E ?s0 = Inr (True, s2)"
      using that
      by (simp add: priv_has_both_parameters_and_variants_def some_variant_not_empty_iff)
    then show ?thesis
      by (simp add: TestSuite_init_def priv_check_both_parameters_and_variants_def)
  qed
  have only_variants: "priv_check_both_parameters_and_variants E ?s0 = Inr s1"
    if "test_parameters ?s0 = Inr ([], s1)"
    using that
    by (simp add: priv_check_both_parameters_and_variants_def
        priv_has_both_parameters_and_variants_def)
  have only_parameters: "priv_check_both_parameters_and_variants E ?s0 = Inr s2"
    if "test_parameters ?s0 = Inr (tp, s1)" "tp \<noteq> []" "variants E s1 = Inr (v, s2)"
       "list_all (\<lambda>x. is_empty_variant E (vd_variant x)) (itertests v)"
  proof -
    have "\<not> list_ex (\<lambda>x. \<not> is_empty_variant E (vd_variant x)) (itertests v)"
      using that(4) by (simp add: list_all_iff list_ex_iff)
    then have "priv_has_both_parameters_and_variants E ?s0 = Inr (False, s2)"
      using that(1,2,3)
      by (simp add: priv_has_both_parameters_and_variants_def some_variant_not_empty_iff)
    then show ?thesis
      by (simp add: priv_check_both_parameters_and_variants_def)
  qed
  from both only_variants only_parameters show ?thesis
    by blast
qed

theorem mutual_exclusion_witness:
  "TestSuite_init (ex_env Map.empty [ex_variant ''a''] []) ''suite'' (Some ex_both_config)
       None None None True
     = Inl (TestSuiteError err_msg)
   \<and> priv_check_both_parameters_and_variants (ex_env Map.empty [ex_variant ''a''] [])
       (init_attributes (ex_env Map.empty [ex_variant ''a''] []) ''suite'' (Some ex_dry_config)
          None None None True)
     = Inr ((ex_suite None ex_dry_config)\<lparr>cached_test_parameters := Some []\<rparr>)
   \<and> priv_check_both_parameters_and_variants (ex_env Map.empty [ex_empty_variant] [])
       (init_attributes (ex_env Map.empty [ex_empty_variant] []) ''suite'' (Some ex_both_config)
          None None None True)
     = Inr ((ex_suite None ex_both_config)
              \<lparr>cached_variants := Some (ex_varianter [ex_empty_variant]),
               cached_test_parameters := Some [(PStr ''sleep'', PStr ''1'')]\<rparr>)"
proof -
  let ?tp = "[(PStr ''sleep'', PStr ''1'')]"
  let ?sb = "ex_suite None ex_both_config"
  let ?sb1 = "?sb\<lparr>cached_test_parameters := Some ?tp\<rparr>"
  let ?sd = "ex_suite None ex_dry_config"
  have ib: "init_attributes (ex_env Map.empty xs []) ''suite'' (Some ex_both_config)
              None None None True = ?sb" for xs
    by (rule ex_init_attributes [OF ex_both_config_nonempty])
  have id: "init_attributes (ex_env Map.empty xs []) ''suite'' (Some ex_dry_config)
              None None None True = ?sd" for xs
    by (rule ex_init_attributes [OF ex_dry_config_nonempty])
  have pb: "test_parameters ?sb = Inr (?tp, ?sb1)"
    by (rule ex_test_parameters_pair) (simp add: ex_both_config_def)
  have pd: "test_parameters ?sd = Inr ([], ?sd\<lparr>cached_test_parameters := Some []\<rparr>)"
    by (rule ex_test_parameters_empty) (simp add: ex_dry_config_def config_get_default_def)
  have vb: "variants (ex_env Map.empty xs []) ?sb1
              = Inr (ex_varianter xs, ?sb1\<lparr>cached_variants := Some (ex_varianter xs)\<rparr>)" for xs
    by (rule ex_variants) (simp add: ex_suite_def)
  have ne: "list_ex (\<lambda>x. \<not> is_empty_variant (ex_env Map.empty [ex_variant ''a''] []) (vd_variant x))
              (itertests (ex_varianter [ex_variant ''a'']))"
    by (simp add: ex_env_def ex_varianter_def ex_variant_def)
  have em: "list_all (\<lambda>x. is_empty_variant (ex_env Map.empty [ex_empty_variant] []) (vd_variant x))
              (itertests (ex_varianter [ex_empty_variant]))"
    by (simp add: ex_env_def ex_varianter_def ex_empty_variant_def)
  have one: "TestSuite_init (ex_env Map.empty [ex_variant ''a''] []) ''suite'' (Some ex_both_config)
               None None None True = Inl (TestSuiteError err_msg)"
    using mutual_exclusion [of "ex_env Map.empty [ex_variant ''a''] []" "''suite''"
        "Some ex_both_config" None None None True ?tp ?sb1 "ex_varianter [ex_variant ''a'']"
        "?sb1\<lparr>cached_variants := Some (ex_varianter [ex_variant ''a''])\<rparr>"]
      ib pb vb ne
    by simp
  have two: "priv_check_both_parameters_and_variants (ex_env Map.empty [ex_variant ''a''] [])
               (init_attributes (ex_env Map.empty [ex_variant ''a''] []) ''suite''
                  (Some ex_dry_config) None None None True)
             = Inr (?sd\<lparr>cached_test_parameters := Some []\<rparr>)"
    using mutual_exclusion [of "ex_env Map.empty [ex_variant ''a''] []" "''suite''"
        "Some ex_dry_config" None None None True _ "?sd\<lparr>cached_test_parameters := Some []\<rparr>"]
      id pd
    by simp
  have three: "priv_check_both_parameters_and_variants (ex_env Map.empty [ex_empty_variant] [])
                 (init_attributes (ex_env Map.empty [ex_empty_variant] []) ''suite''
                    (Some ex_both_config) None None None True)
               = Inr (?sb1\<lparr>cached_variants := Some (ex_varianter [ex_empty_variant])\<rparr>)"
    using mutual_exclusion [of "ex_env Map.empty [ex_empty_variant] []" "''suite''"
        "Some ex_both_config" None None None True ?tp ?sb1 "ex_varianter [ex_empty_variant]"
        "?sb1\<lparr>cached_variants := Some (ex_varianter [ex_empty_variant])\<rparr>"]
      ib pb vb em
    by simp
  from one two three show ?thesis
    by (simp add: ex_suite_def)
qed

subsection \<open>Dry run on a suite without a test list\<close>

text \<open>
  C10, as amended. A construction with \<^verbatim>\<open>tests\<close> \<^verbatim>\<open>None\<close> whose merged
  configuration has \<^verbatim>\<open>run.dry_run.enabled\<close> truthy and \<^verbatim>\<open>run.suite_runner\<close>
  equal to \<^verbatim>\<open>"nrunner"\<close>, and whose mutual-exclusion check returns without raising,
  fails with the \<^verbatim>\<open>TypeError\<close> of iterating \<^verbatim>\<open>None\<close> in the dry-run
  conversion.
\<close>

theorem dry_run_without_tests:
  assumes "priv_check_both_parameters_and_variants E (init_attributes E nm cfg None jc rs en) = Inr s1"
    and "truthy (config_get (update_if (update_if (settings_as_dict E) jc) cfg) ''run.dry_run.enabled'')"
    and "config_get (update_if (update_if (settings_as_dict E) jc) cfg) ''run.suite_runner'' = PStr ''nrunner''"
  shows "TestSuite_init E nm cfg None jc rs en = Inl none_not_iterable"
proof -
  from check_attrs [OF assms(1)]
  have "tests s1 = None" and "config s1 = update_if (update_if (settings_as_dict E) jc) cfg"
    by (simp_all add: init_attributes_def)
  then show ?thesis
    using assms by (simp add: TestSuite_init_def priv_convert_to_dry_run_def)
qed

theorem dry_run_without_tests_witness:
  "truthy (config_get ex_dry_config ''run.dry_run.enabled'')
   \<and> config_get ex_dry_config ''run.suite_runner'' = PStr ''nrunner''
   \<and> TestSuite_init (ex_env Map.empty [ex_variant ''a''] []) ''suite'' (Some ex_dry_config)
        None None None True
      = Inl (TypeError ''NoneType object is not iterable'')"
proof -
  let ?E = "ex_env Map.empty [ex_variant ''a''] []"
  let ?sd = "ex_suite None ex_dry_config"
  have m: "update_if (update_if (settings_as_dict ?E) None) (Some ex_dry_config) = ex_dry_config"
    using ex_dry_config_nonempty by (simp add: update_if_def ex_env_def)
  have i: "init_attributes ?E ''suite'' (Some ex_dry_config) None None None True = ?sd"
    by (rule ex_init_attributes [OF ex_dry_config_nonempty])
  have p: "test_parameters ?sd = Inr ([], ?sd\<lparr>cached_test_parameters := Some []\<rparr>)"
    by (rule ex_test_parameters_empty) (simp add: ex_dry_config_def config_get_default_def)
  have h1: "priv_check_both_parameters_and_variants ?E
              (init_attributes ?E ''suite'' (Some ex_dry_config) None None None True)
            = Inr (?sd\<lparr>cached_test_parameters := Some []\<rparr>)"
    by (simp add: i p priv_check_both_parameters_and_variants_def
        priv_has_both_parameters_and_variants_def)
  have h2: "truthy (config_get ex_dry_config ''run.dry_run.enabled'')"
    by (simp add: ex_dry_config_def config_get_def)
  have h3: "config_get ex_dry_config ''run.suite_runner'' = PStr ''nrunner''"
    by (simp add: ex_dry_config_def config_get_def)
  from dry_run_without_tests [OF h1, unfolded m, OF h2 h3] h2 h3 show ?thesis
    by (simp add: none_not_iterable_def)
qed

text \<open>
  C10 as stated fails: with test parameters and a variant that is not empty, the
  construction raises the \<^verbatim>\<open>TestSuiteError\<close> of the mutual-exclusion check before
  the dry-run conversion is reached.
\<close>

theorem dry_run_without_tests_counterexample:
  "truthy (config_get (config (init_attributes (ex_env Map.empty [ex_variant ''a''] []) ''suite''
                                 (Some ex_both_config) None None None True))
             ''run.dry_run.enabled'')
   \<and> config_get (config (init_attributes (ex_env Map.empty [ex_variant ''a''] []) ''suite''
                           (Some ex_both_config) None None None True))
        ''run.suite_runner'' = PStr ''nrunner''
   \<and> TestSuite_init (ex_env Map.empty [ex_variant ''a''] []) ''suite'' (Some ex_both_config)
        None None None True
      = Inl (TestSuiteError err_msg)
   \<and> TestSuite_init (ex_env Map.empty [ex_variant ''a''] []) ''suite'' (Some ex_both_config)
        None None None True
      \<noteq> Inl (TypeError ''NoneType object is not iterable'')"
proof -
  let ?E = "ex_env Map.empty [ex_variant ''a''] []"
  let ?tp = "[(PStr ''sleep'', PStr ''1'')]"
  let ?sb = "ex_suite None ex_both_config"
  let ?sb1 = "?sb\<lparr>cached_test_parameters := Some ?tp\<rparr>"
  have i: "init_attributes ?E ''suite'' (Some ex_both_config) None None None True = ?sb"
    by (rule ex_init_attributes [OF ex_both_config_nonempty])
  have p: "test_parameters ?sb = Inr (?tp, ?sb1)"
    by (rule ex_test_parameters_pair) (simp add: ex_both_config_def)
  have v: "variants ?E ?sb1
             = Inr (ex_varianter [ex_variant ''a''],
                    ?sb1\<lparr>cached_variants := Some (ex_varianter [ex_variant ''a''])\<rparr>)"
    by (rule ex_variants) (simp add: ex_suite_def)
  have n: "some_variant_not_empty ?E (itertests (ex_varianter [ex_variant ''a'']))"
    by (simp add: ex_env_def ex_varianter_def ex_variant_def)
  have r: "TestSuite_init ?E ''suite'' (Some ex_both_config) None None None True
             = Inl (TestSuiteError err_msg)"
    by (simp add: TestSuite_init_def i p v n priv_check_both_parameters_and_variants_def
        priv_has_both_parameters_and_variants_def)
  have c: "config ?sb = ex_both_config"
    by (simp add: ex_suite_def)
  have d: "truthy (config_get ex_both_config ''run.dry_run.enabled'')"
    by (simp add: ex_both_config_def config_get_def)
  have e: "config_get ex_both_config ''run.suite_runner'' = PStr ''nrunner''"
    by (simp add: ex_both_config_def config_get_def)
  show ?thesis
    unfolding r i c using d e by simp
qed

subsection \<open>Precedence of the configuration layers\<close>

text \<open>
  C3. The configuration of a constructed suite maps a key to the value of the suite
  configuration when the key is there, else to the value of the job configuration when it
  is there, else to the registered default; this holds for the constructor and for
  \<^verbatim>\<open>from_config\<close>.
\<close>

theorem config_layers:
  "(TestSuite_init E nm cfg ts jc rs en = Inr s \<longrightarrow>
      config s k = config_precedence (settings_as_dict E) jc cfg k)
   \<and> (from_config E sc nm' jc' = Inr s' \<longrightarrow>
      config s' k = config_precedence (settings_as_dict E) jc' (Some sc) k)"
proof (intro conjI impI)
  assume "TestSuite_init E nm cfg ts jc rs en = Inr s"
  from init_config [OF this]
  show "config s k = config_precedence (settings_as_dict E) jc cfg k"
    by (simp add: update_if_apply config_precedence_def layer_get_def split: option.splits)
next
  assume "from_config E sc nm' jc' = Inr s'"
  then have "config s' = update_if (settings_as_dict E) (Some (from_config_config E sc jc'))"
    by (rule from_config_suite_config [OF from_config_result])
  then have "config s' = update_if (settings_as_dict E) jc' ++ sc"
    by (simp add: from_config_config_def merged_over_defaults)
  then show "config s' k = config_precedence (settings_as_dict E) jc' (Some sc) k"
    by (simp add: update_if_apply config_precedence_def layer_get_def map_add_def
        split: option.splits)
qed

theorem config_layers_witness:
  "(case TestSuite_init (ex_env ex_defaults [] []) ''suite'' (Some ex_suite_config) None
           (Some ex_job_config) None True of
      Inl e \<Rightarrow> []
    | Inr s \<Rightarrow> map (config s) [''run.suite_runner'', ''run.execution_order'',
                                ''run.ignore_missing_references'', ''run.dry_run.enabled''])
   = [Some (PStr ''suite-runner''), Some (PStr ''tests-per-variant''), Some (PBool False), None]
   \<and> (case from_config (ex_env ex_defaults [] []) ex_tolerant_config (Some ''suite'')
             (Some ex_job_config) of
        Inl e \<Rightarrow> []
      | Inr s \<Rightarrow> map (config s) [''run.suite_runner'', ''run.execution_order'',
                                  ''run.ignore_missing_references'', ''run.dry_run.enabled''])
   = [Some (PStr ''suite-runner''), Some (PStr ''tests-per-variant''), Some (PBool True), None]"
proof -
  let ?E = "ex_env ex_defaults [] []"
  let ?c = "update_if (update_if ex_defaults (Some ex_job_config)) (Some ex_suite_config)"
  let ?d = "from_config_config ?E ex_tolerant_config (Some ex_job_config)"
  have d: "settings_as_dict ?E = ex_defaults"
    by (simp add: ex_env_def)
  have p: "config_precedence ex_defaults (Some ex_job_config) (Some ex_suite_config) k =
             (if k = ''run.suite_runner'' then Some (PStr ''suite-runner'')
              else if k = ''run.execution_order'' then Some (PStr ''tests-per-variant'')
              else if k = ''run.ignore_missing_references'' then Some (PBool False)
              else None)" for k
    by (simp add: config_precedence_def layer_get_def ex_defaults_def ex_job_config_def
        ex_suite_config_def)
  have q: "config_precedence ex_defaults (Some ex_job_config) (Some ex_tolerant_config) k =
             (if k = ''run.suite_runner'' then Some (PStr ''suite-runner'')
              else if k = ''run.execution_order'' then Some (PStr ''tests-per-variant'')
              else if k = ''run.ignore_missing_references'' then Some (PBool True)
              else None)" for k
    by (simp add: config_precedence_def layer_get_def ex_defaults_def ex_job_config_def
        ex_tolerant_config_def)
  have a: "TestSuite_init ?E ''suite'' (Some ex_suite_config) None (Some ex_job_config) None True
             = Inr (ex_built ''suite'' None True ?c None)"
    by (rule ex_TestSuite_init)
      (simp_all add: update_if_apply ex_defaults_def ex_job_config_def ex_suite_config_def)
  have dk: "?d k = config_precedence ex_defaults (Some ex_job_config) (Some ex_tolerant_config) k" for k
    by (simp add: from_config_config_def d update_if_apply map_add_def config_precedence_def
        layer_get_def split: option.splits)
  have b: "from_config_suite ?E ex_tolerant_config (Some ''suite'') (Some ex_job_config)
             = Inr (ex_built ''suite'' (Some (collect_runnables ?E ?d [] [])) True ?d
                      (Some (ex_varianter [])))"
    by (rule ex_from_config_suite) (simp_all add: dk q)
  have t: "truthy (config_get ?d ''run.ignore_missing_references'')"
    by (simp add: config_get_def dk q)
  have b': "from_config ?E ex_tolerant_config (Some ''suite'') (Some ex_job_config)
             = Inr (ex_built ''suite'' (Some []) True ?d (Some (ex_varianter [])))"
    by (simp add: from_config_def b t)
  note l = config_layers [of ?E "''suite''" "Some ex_suite_config" None "Some ex_job_config" None True
      "ex_built ''suite'' None True ?c None" _ ex_tolerant_config "Some ''suite''"
      "Some ex_job_config"
      "ex_built ''suite'' (Some []) True ?d (Some (ex_varianter []))", unfolded d]
  have l1: "config (ex_built ''suite'' None True ?c None) k
              = config_precedence ex_defaults (Some ex_job_config) (Some ex_suite_config) k" for k
    using l [of k] a by blast
  have l2: "config (ex_built ''suite'' (Some []) True ?d (Some (ex_varianter []))) k
              = config_precedence ex_defaults (Some ex_job_config) (Some ex_tolerant_config) k" for k
    using l [of k] b' by blast
  show ?thesis
    by (simp add: a b' l1 l2 p q)
qed

subsection \<open>A factory call that finds no tests\<close>

text \<open>
  C7. When the suite that \<^verbatim>\<open>from_config\<close> has built has no tests: if
  \<^verbatim>\<open>run.ignore_missing_references\<close> is falsy the factory raises
  \<^verbatim>\<open>TestSuiteError\<close> with the message that no tests were found; if it is truthy the
  factory returns that suite, whose size is 0.
\<close>

theorem missing_references:
  assumes "from_config_suite E sc nm jc = Inr suite"
    and "no_tests suite"
  shows "(\<not> truthy (config_get (from_config_config E sc jc) ''run.ignore_missing_references'') \<longrightarrow>
            from_config E sc nm jc = Inl (TestSuiteError no_tests_msg))
       \<and> (truthy (config_get (from_config_config E sc jc) ''run.ignore_missing_references'') \<longrightarrow>
            from_config E sc nm jc = Inr suite \<and> suite_size suite = 0)"
  using assms
  by (auto simp: from_config_def no_tests_def suite_size_def split: option.splits)

theorem missing_references_witness:
  "from_config (ex_env ex_defaults [] []) ex_suite_config (Some ''suite'') None
     = Inl (TestSuiteError no_tests_msg)
   \<and> (case from_config (ex_env ex_defaults [] []) ex_tolerant_config (Some ''suite'') None of
        Inl e \<Rightarrow> None
      | Inr s \<Rightarrow> Some (tests s, suite_size s))
     = Some (Some [], 0)"
proof -
  let ?E = "ex_env ex_defaults [] []"
  let ?c = "from_config_config ?E ex_suite_config None"
  let ?d = "from_config_config ?E ex_tolerant_config None"
  have ck: "?c k =
             (if k = ''run.suite_runner'' then Some (PStr ''suite-runner'')
              else if k = ''run.execution_order'' then Some (PStr ''variants-per-test'')
              else if k = ''run.ignore_missing_references'' then Some (PBool False)
              else None)" for k
    by (simp add: from_config_config_def ex_env_def update_if_def map_add_def ex_defaults_def
        ex_suite_config_def)
  have dk: "?d k =
             (if k = ''run.suite_runner'' then Some (PStr ''suite-runner'')
              else if k = ''run.execution_order'' then Some (PStr ''variants-per-test'')
              else if k = ''run.ignore_missing_references'' then Some (PBool True)
              else None)" for k
    by (simp add: from_config_config_def ex_env_def update_if_def map_add_def ex_defaults_def
        ex_tolerant_config_def)
  let ?s = "ex_built ''suite'' (Some (collect_runnables ?E ?c [] [])) True ?c
              (Some (ex_varianter []))"
  let ?t = "ex_built ''suite'' (Some (collect_runnables ?E ?d [] [])) True ?d
              (Some (ex_varianter []))"
  have a: "from_config_suite ?E ex_suite_config (Some ''suite'') None = Inr ?s"
    by (rule ex_from_config_suite) (simp_all add: ck)
  have b: "from_config_suite ?E ex_tolerant_config (Some ''suite'') None = Inr ?t"
    by (rule ex_from_config_suite) (simp_all add: dk)
  have na: "no_tests ?s" and nb: "no_tests ?t"
    by (simp_all add: no_tests_def ex_built_def)
  have off: "\<not> truthy (config_get ?c ''run.ignore_missing_references'')"
    by (simp add: config_get_def ck)
  have on: "truthy (config_get ?d ''run.ignore_missing_references'')"
    by (simp add: config_get_def dk)
  from missing_references [OF a na] off
  have one: "from_config ?E ex_suite_config (Some ''suite'') None = Inl (TestSuiteError no_tests_msg)"
    by blast
  from missing_references [OF b nb] on
  have two: "from_config ?E ex_tolerant_config (Some ''suite'') None = Inr ?t \<and> suite_size ?t = 0"
    by blast
  show ?thesis
    using one two by (simp add: ex_built_def)
qed

end
